theory Spec2Isabelle
  imports
    Complex_Main
    "HOL-Library.Multiset"
    "HOL-Library.Product_Lexorder"
    "HOL-Library.Sublist"
begin

section \<open>The measurement service of \<^verbatim>\<open>src/app.py\<close>\<close>

text \<open>
  The program is one Flask module: a table \<^verbatim>\<open>measurements\<close> behind SQLAlchemy on an
  SQLite file, and four JSON routes over it. Each route is embedded as a function of the
  request's input and of the table before the request, returning the response and the
  table after it. Everything the routes call outside the module (the Python runtime and
  the SQLite engine) is either written out where its documented behaviour is a fixed
  rule, or taken as a parameter of the model, collected in the record \<open>runtime\<close>. A
  theorem holds for every value of the parameters it does not name; where a property
  depends on how a timestamp is written or on the order of rows with equal timestamps,
  the theorem names the formatter and the engine of the program, \<open>glibc_strftime\<close> and
  \<open>index_scan\<close>.

  A Python \<^verbatim>\<open>str\<close> is the list of its code points; the code points of the module's own
  messages are all below 256, one \<open>char\<close> each.
\<close>

subsection \<open>Data\<close>

text \<open>
  \<^verbatim>\<open>datetime\<close>: a naive date and time (the module never attaches a time zone).
  SQLAlchemy stores it on SQLite as the text \<^verbatim>\<open>YYYY-MM-DD HH:MM:SS.ffffff\<close>, all fields
  zero-padded, so the engine's order on the column is the lexicographic order of the
  seven fields, \<open>dt_key\<close>.
\<close>

record datetime =
  dt_year :: nat
  dt_month :: nat
  dt_day :: nat
  dt_hour :: nat
  dt_minute :: nat
  dt_second :: nat
  dt_microsecond :: nat

definition dt_key :: "datetime \<Rightarrow> nat \<times> nat \<times> nat \<times> nat \<times> nat \<times> nat \<times> nat" where
  "dt_key t =
     (dt_year t, dt_month t, dt_day t, dt_hour t, dt_minute t, dt_second t, dt_microsecond t)"

text \<open>
  \<^verbatim>\<open>class Measurement(db.Model)\<close>, lines 11 to 15: \<^verbatim>\<open>id\<close> is the integer primary key,
  \<^verbatim>\<open>timestamp\<close> and \<^verbatim>\<open>value\<close> are not nullable. The float type is the parameter \<open>'f\<close>.
  The table is the list of its rows.
\<close>

record 'f measurement =
  m_id :: int
  m_timestamp :: datetime
  m_value :: 'f

text \<open>
  Python values as the JSON routes see them: what \<^verbatim>\<open>request.get_json\<close> returns and what
  \<^verbatim>\<open>jsonify\<close> is given. A \<^verbatim>\<open>dict\<close> is an association list in insertion order, read with
  \<open>map_of\<close>.
\<close>

datatype 'f pyval =
    PNone
  | PBool bool
  | PInt int
  | PFloat 'f
  | PStr string
  | PList "'f pyval list"
  | PDict "(string \<times> 'f pyval) list"

text \<open>
  What a route can raise. \<open>TypeError\<close> and \<open>ValueError\<close> are caught where the source
  says so; \<open>NotFound\<close> is the HTTP exception of \<^verbatim>\<open>get_or_404\<close>; the others leave the
  route uncaught.
\<close>

datatype failure =
    TypeError
  | ValueError
  | KeyError
  | OverflowError
  | IntegrityError
  | OperationalError
  | NotFound

type_synonym 'f response = "'f pyval \<times> nat"

type_synonym 'f result = "failure + 'f response"

text \<open>
  The status line the client reads: Flask answers an HTTP exception with its own code
  and any other uncaught exception with 500.
\<close>

fun http_status :: "'f result \<Rightarrow> nat" where
  "http_status (Inr (body, status)) = status"
| "http_status (Inl NotFound) = 404"
| "http_status (Inl e) = 500"

datatype direction = Asc | Desc

text \<open>
  The parameters of the model. From the Python runtime:
  \<^item> \<open>py_float_str\<close>: \<^verbatim>\<open>float(s)\<close> on a string, \<open>None\<close> for \<^verbatim>\<open>ValueError\<close>;
  \<^item> \<open>py_float_int\<close>: \<^verbatim>\<open>float(n)\<close> on an integer, \<open>None\<close> for \<^verbatim>\<open>OverflowError\<close>;
  \<^item> \<open>py_float_bool\<close>: the truth value of a float;
  \<^item> \<open>py_int_str\<close>: \<^verbatim>\<open>int(s)\<close> on a string, \<open>None\<close> for \<^verbatim>\<open>ValueError\<close>;
  \<^item> \<open>py_strptime\<close>: \<^verbatim>\<open>datetime.strptime(s, fmt)\<close>, \<open>None\<close> for \<^verbatim>\<open>ValueError\<close>;
  \<^item> \<open>py_strftime\<close>: \<^verbatim>\<open>t.strftime(fmt)\<close>; CPython's on Linux is \<open>glibc_strftime\<close> below.

  From the SQLite engine:
  \<^item> \<open>sql_not_null\<close>: whether the engine stores the float as a value other than NULL
    (it stores a NaN as NULL, which the column refuses);
  \<^item> \<open>sql_probe\<close>: the rowid the engine finds by random probing once the largest rowid
    of the table is the largest there is, \<open>None\<close> when it gives up;
  \<^item> \<open>sql_order_by\<close>: the rows in the order in which the engine returns them for
    \<^verbatim>\<open>ORDER BY timestamp ASC\<close> or \<^verbatim>\<open>DESC\<close>; SQLite's is \<open>index_scan\<close> below.
\<close>

record 'f runtime =
  py_float_str :: "string \<Rightarrow> 'f option"
  py_float_int :: "int \<Rightarrow> 'f option"
  py_float_bool :: "'f \<Rightarrow> bool"
  py_int_str :: "string \<Rightarrow> int option"
  py_strptime :: "string \<Rightarrow> string \<Rightarrow> datetime option"
  py_strftime :: "datetime \<Rightarrow> string \<Rightarrow> string"
  sql_not_null :: "'f \<Rightarrow> bool"
  sql_probe :: "int list \<Rightarrow> int option"
  sql_order_by :: "direction \<Rightarrow> 'f measurement list \<Rightarrow> 'f measurement list"

subsection \<open>The engine\<close>

text \<open>
  The contract of \<^verbatim>\<open>ORDER BY timestamp\<close>: the rows of the table, each once, with the
  timestamps in order. The module gives no second sort key; \<open>order_ok\<close> is what every
  engine guarantees.
\<close>

definition in_order :: "direction \<Rightarrow> datetime \<Rightarrow> datetime \<Rightarrow> bool" where
  "in_order d a b = (case d of Asc \<Rightarrow> dt_key a \<le> dt_key b | Desc \<Rightarrow> dt_key b \<le> dt_key a)"

definition order_ok :: "'f runtime \<Rightarrow> direction \<Rightarrow> 'f measurement list \<Rightarrow> bool" where
  "order_ok lib d st =
     (mset (sql_order_by lib d st) = mset st \<and>
      sorted_wrt (in_order d) (map m_timestamp (sql_order_by lib d st)))"

text \<open>
  What SQLite does for this table. The column \<^verbatim>\<open>timestamp\<close> is declared \<^verbatim>\<open>index=True\<close>
  (line 14), and SQLite answers both queries of line 146 from that index. Its entries are
  the pairs of a timestamp and the rowid of its row, in ascending order: rows of equal
  timestamp stand in the order of their ids. \<^verbatim>\<open>ASC\<close> walks the index forwards, \<^verbatim>\<open>DESC\<close>
  walks it backwards.
\<close>

definition index_scan :: "direction \<Rightarrow> 'f measurement list \<Rightarrow> 'f measurement list" where
  "index_scan d st =
     (case d of
        Asc \<Rightarrow> sort_key (\<lambda>m. (dt_key (m_timestamp m), m_id m)) st
      | Desc \<Rightarrow> rev (sort_key (\<lambda>m. (dt_key (m_timestamp m), m_id m)) st))"

text \<open>
  An SQLite INTEGER is a signed 64-bit integer. The \<^verbatim>\<open>sqlite3\<close> driver raises
  \<^verbatim>\<open>OverflowError\<close> when it is asked to bind a Python integer outside that range.
\<close>

definition max_rowid :: int where
  "max_rowid = 9223372036854775807"

definition int64 :: "int \<Rightarrow> bool" where
  "int64 n = (- max_rowid - 1 \<le> n \<and> n \<le> max_rowid)"

text \<open>
  The column \<^verbatim>\<open>id\<close> is declared \<^verbatim>\<open>db.Column(db.Integer, primary_key=True)\<close> and nothing
  else (line 13): on SQLite that is an \<^verbatim>\<open>INTEGER PRIMARY KEY\<close> without \<^verbatim>\<open>AUTOINCREMENT\<close>, an
  alias of the rowid. An insert that names no id gets 1 on an empty table and otherwise
  one more than the largest rowid in the table; at the largest rowid there is, the engine
  probes for an unused one and fails with \<^verbatim>\<open>SQLITE_FULL\<close> when it finds none.
\<close>

definition new_rowid :: "'f runtime \<Rightarrow> 'f measurement list \<Rightarrow> failure + int" where
  "new_rowid lib st =
     (if st = [] then Inr 1
      else if Max (set (map m_id st)) < max_rowid then Inr (Max (set (map m_id st)) + 1)
      else (case sql_probe lib (map m_id st) of
              None \<Rightarrow> Inl OperationalError
            | Some i \<Rightarrow>
                if 0 < i \<and> i \<le> max_rowid \<and> i \<notin> set (map m_id st) then Inr i
                else Inl OperationalError))"

text \<open>\<^verbatim>\<open>LIMIT n\<close>: the first \<open>n\<close> rows; a negative \<open>n\<close> is no bound.\<close>

definition sql_limit :: "int \<Rightarrow> 'a list \<Rightarrow> 'a list" where
  "sql_limit n rows = (if n < 0 then rows else take (nat n) rows)"

subsection \<open>The messages and the formats of the module\<close>

definition fmt_space :: string where
  "fmt_space = ''%Y-%m-%d %H:%M:%S''"

definition fmt_T :: string where
  "fmt_T = ''%Y-%m-%dT%H:%M:%S''"

definition msg_get_missing :: string where
  "msg_get_missing = ''Falta el par'' @ [CHR 0xE1] @ ''metro 'value' en query string''"

definition msg_not_numeric :: string where
  "msg_not_numeric = [CHR 0x27] @ ''value' debe ser num'' @ [CHR 0xE9] @ ''rico''"

definition msg_get_timestamp :: string where
  "msg_get_timestamp =
     ''Formato 'timestamp' inv'' @ [CHR 0xE1] @
     ''lido. Usa 'YYYY-mm-dd HH:MM:SS' o ISO 8601 simple.''"

definition msg_json :: string where
  "msg_json = ''JSON inv'' @ [CHR 0xE1] @ ''lido o vac'' @ [CHR 0xED] @ ''o''"

definition msg_post_missing :: string where
  "msg_post_missing = ''Falta 'value' en el payload''"

definition msg_post_timestamp :: string where
  "msg_post_timestamp =
     ''Formato 'timestamp' inv'' @ [CHR 0xE1] @
     ''lido. Usa 'YYYY-mm-dd HH:MM:SS' o ISO 8601.''"

definition error_json :: "string \<Rightarrow> 'f pyval" where
  "error_json msg = PDict [(''error'', PStr msg)]"

text \<open>
  The dictionary the routes build for a row (lines 90 to 94, 134 to 138 and 152).
\<close>

definition row_json :: "'f runtime \<Rightarrow> 'f measurement \<Rightarrow> 'f pyval" where
  "row_json lib r =
     PDict [(''id'', PInt (m_id r)),
            (''timestamp'', PStr (py_strftime lib (m_timestamp r) fmt_space)),
            (''value'', PFloat (m_value r))]"

subsection \<open>Creating a row\<close>

text \<open>
  Lines 85 to 94 of the GET route and, word for word, lines 130 to 138 of the POST route:
  \<^verbatim>\<open>m = Measurement(timestamp=timestamp, value=value); db.session.add(m);
  db.session.commit()\<close> and the 201 response. The commit fails on a value the engine
  stores as NULL and when no rowid is found; the table is then as before.
\<close>

definition create_row ::
  "'f runtime \<Rightarrow> datetime \<Rightarrow> 'f \<Rightarrow> 'f measurement list \<Rightarrow> 'f result \<times> 'f measurement list" where
  "create_row lib timestamp v st =
     (if \<not> sql_not_null lib v then (Inl IntegrityError, st)
      else (case new_rowid lib st of
              Inl e \<Rightarrow> (Inl e, st)
            | Inr i \<Rightarrow>
                (Inr (row_json lib \<lparr>m_id = i, m_timestamp = timestamp, m_value = v\<rparr>, 201),
                 st @ [\<lparr>m_id = i, m_timestamp = timestamp, m_value = v\<rparr>])))"

subsection \<open>GET /api/measurements/add\<close>

text \<open>
  \<^verbatim>\<open>add_measurement_via_get\<close>, lines 46 to 94. \<open>args\<close> is the query string as a list of
  pairs (\<^verbatim>\<open>request.args.get\<close> reads the first value of a key), \<open>now\<close> is what
  \<^verbatim>\<open>datetime.now()\<close> returns during the request. \<^verbatim>\<open>if ts_str:\<close> is false for an absent and
  for an empty parameter.
\<close>

definition add_measurement_via_get ::
  "'f runtime \<Rightarrow> datetime \<Rightarrow> (string \<times> string) list \<Rightarrow> 'f measurement list
     \<Rightarrow> 'f result \<times> 'f measurement list" where
  "add_measurement_via_get lib now args st =
     (case map_of args ''value'' of
        None \<Rightarrow> (Inr (error_json msg_get_missing, 400), st)
      | Some val_str \<Rightarrow>
          (case py_float_str lib val_str of
             None \<Rightarrow> (Inr (error_json msg_not_numeric, 400), st)
           | Some v \<Rightarrow>
               (case map_of args ''timestamp'' of
                  None \<Rightarrow> create_row lib now v st
                | Some ts_str \<Rightarrow>
                    if ts_str \<noteq> [] then
                      (case py_strptime lib ts_str fmt_space of
                         Some timestamp \<Rightarrow> create_row lib timestamp v st
                       | None \<Rightarrow>
                           (case py_strptime lib ts_str fmt_T of
                              Some timestamp \<Rightarrow> create_row lib timestamp v st
                            | None \<Rightarrow> (Inr (error_json msg_get_timestamp, 400), st)))
                    else create_row lib now v st)))"

subsection \<open>POST /api/measurements\<close>

text \<open>The truth value of a Python value (\<^verbatim>\<open>if not data\<close>, \<^verbatim>\<open>if ts\<close>).\<close>

fun py_truthy :: "'f runtime \<Rightarrow> 'f pyval \<Rightarrow> bool" where
  "py_truthy lib PNone = False"
| "py_truthy lib (PBool b) = b"
| "py_truthy lib (PInt n) = (n \<noteq> 0)"
| "py_truthy lib (PFloat x) = py_float_bool lib x"
| "py_truthy lib (PStr s) = (s \<noteq> [])"
| "py_truthy lib (PList xs) = (xs \<noteq> [])"
| "py_truthy lib (PDict kvs) = (kvs \<noteq> [])"

text \<open>
  \<^verbatim>\<open>key in data\<close>: a key of a dict, an element of a list, a substring of a string,
  and \<^verbatim>\<open>TypeError\<close> on a value that is no container.
\<close>

fun py_in :: "string \<Rightarrow> 'f pyval \<Rightarrow> failure + bool" where
  "py_in k (PDict kvs) = Inr (k \<in> set (map fst kvs))"
| "py_in k (PList xs) = Inr (PStr k \<in> set xs)"
| "py_in k (PStr s) = Inr (sublist k s)"
| "py_in k other = Inl TypeError"

text \<open>
  \<^verbatim>\<open>data[key]\<close> with a string key: the value of a dict (\<^verbatim>\<open>KeyError\<close> on a missing key,
  which does not arise here, the route asks \<^verbatim>\<open>in\<close> first), and \<^verbatim>\<open>TypeError\<close> on a list or
  a string, which take integer indices only.
\<close>

fun py_getitem :: "'f pyval \<Rightarrow> string \<Rightarrow> failure + 'f pyval" where
  "py_getitem (PDict kvs) k = (case map_of kvs k of Some x \<Rightarrow> Inr x | None \<Rightarrow> Inl KeyError)"
| "py_getitem other k = Inl TypeError"

text \<open>\<^verbatim>\<open>data.get(key)\<close> on a dict.\<close>

definition dict_get :: "(string \<times> 'f pyval) list \<Rightarrow> string \<Rightarrow> 'f pyval" where
  "dict_get kvs k = (case map_of kvs k of Some x \<Rightarrow> x | None \<Rightarrow> PNone)"

text \<open>\<^verbatim>\<open>float(x)\<close>; a bool is the integer 0 or 1.\<close>

fun py_float :: "'f runtime \<Rightarrow> 'f pyval \<Rightarrow> failure + 'f" where
  "py_float lib (PFloat x) = Inr x"
| "py_float lib (PInt n) = (case py_float_int lib n of Some x \<Rightarrow> Inr x | None \<Rightarrow> Inl OverflowError)"
| "py_float lib (PBool b) =
     (case py_float_int lib (if b then 1 else 0) of Some x \<Rightarrow> Inr x | None \<Rightarrow> Inl OverflowError)"
| "py_float lib (PStr s) = (case py_float_str lib s of Some x \<Rightarrow> Inr x | None \<Rightarrow> Inl ValueError)"
| "py_float lib other = Inl TypeError"

text \<open>\<^verbatim>\<open>datetime.strptime(ts, fmt)\<close> on any value: \<^verbatim>\<open>TypeError\<close> unless \<open>ts\<close> is a string.\<close>

fun strptime_val :: "'f runtime \<Rightarrow> 'f pyval \<Rightarrow> string \<Rightarrow> failure + datetime" where
  "strptime_val lib (PStr s) fmt =
     (case py_strptime lib s fmt of Some t \<Rightarrow> Inr t | None \<Rightarrow> Inl ValueError)"
| "strptime_val lib other fmt = Inl TypeError"

text \<open>
  \<^verbatim>\<open>create_measurement\<close>, lines 98 to 138. \<open>data\<close> is what
  \<^verbatim>\<open>request.get_json(silent=True)\<close> returns: the parsed body, and \<^verbatim>\<open>None\<close> for a body that
  is not JSON. The conversion of the value catches \<^verbatim>\<open>TypeError\<close> and \<^verbatim>\<open>ValueError\<close>
  (line 115), the parsing of the timestamp catches \<^verbatim>\<open>ValueError\<close> only (lines 122 and
  125). Past line 116 \<open>data\<close> is a dict: on a list or a string \<^verbatim>\<open>data['value']\<close> has
  raised.
\<close>

definition create_measurement ::
  "'f runtime \<Rightarrow> datetime \<Rightarrow> 'f pyval \<Rightarrow> 'f measurement list
     \<Rightarrow> 'f result \<times> 'f measurement list" where
  "create_measurement lib now data st =
     (if \<not> py_truthy lib data then (Inr (error_json msg_json, 400), st)
      else
        (case py_in ''value'' data of
           Inl e \<Rightarrow> (Inl e, st)
         | Inr False \<Rightarrow> (Inr (error_json msg_post_missing, 400), st)
         | Inr True \<Rightarrow>
             (case (case py_getitem data ''value'' of Inl e \<Rightarrow> Inl e | Inr x \<Rightarrow> py_float lib x) of
                Inl e \<Rightarrow>
                  if e = TypeError \<or> e = ValueError
                  then (Inr (error_json msg_not_numeric, 400), st)
                  else (Inl e, st)
              | Inr v \<Rightarrow>
                  (case data of
                     PDict kvs \<Rightarrow>
                       if py_truthy lib (dict_get kvs ''timestamp'') then
                         (case strptime_val lib (dict_get kvs ''timestamp'') fmt_space of
                            Inr timestamp \<Rightarrow> create_row lib timestamp v st
                          | Inl e \<Rightarrow>
                              if e = ValueError then
                                (case strptime_val lib (dict_get kvs ''timestamp'') fmt_T of
                                   Inr timestamp \<Rightarrow> create_row lib timestamp v st
                                 | Inl e' \<Rightarrow>
                                     if e' = ValueError
                                     then (Inr (error_json msg_post_timestamp, 400), st)
                                     else (Inl e', st))
                              else (Inl e, st))
                       else create_row lib now v st
                   | other \<Rightarrow> (Inl TypeError, st)))))"

subsection \<open>GET /api/measurements\<close>

text \<open>
  \<^verbatim>\<open>list_measurements\<close>, lines 141 to 154, in two steps. \<open>select_rows\<close> is lines 142
  to 150, the rows of \<^verbatim>\<open>q.all()\<close>: \<^verbatim>\<open>request.args.get('limit', type=int)\<close> is \<^verbatim>\<open>None\<close> for an
  absent parameter and for one that \<^verbatim>\<open>int\<close> refuses; \<^verbatim>\<open>order\<close> defaults to \<^verbatim>\<open>'asc'\<close>;
  \<^verbatim>\<open>if limit:\<close> is false for \<^verbatim>\<open>None\<close> and for 0, and any other limit is bound as a
  parameter of the query.
\<close>

definition select_rows ::
  "'f runtime \<Rightarrow> (string \<times> string) list \<Rightarrow> 'f measurement list \<Rightarrow> failure + 'f measurement list" where
  "select_rows lib args st =
     (let limit = (case map_of args ''limit'' of None \<Rightarrow> None | Some s \<Rightarrow> py_int_str lib s);
          order = (case map_of args ''order'' of None \<Rightarrow> ''asc'' | Some s \<Rightarrow> s);
          q = sql_order_by lib (if order = ''desc'' then Desc else Asc) st
      in case limit of
           None \<Rightarrow> Inr q
         | Some n \<Rightarrow>
             if n \<noteq> 0 then (if int64 n then Inr (sql_limit n q) else Inl OverflowError)
             else Inr q)"

definition list_measurements ::
  "'f runtime \<Rightarrow> (string \<times> string) list \<Rightarrow> 'f measurement list \<Rightarrow> 'f result" where
  "list_measurements lib args st =
     (case select_rows lib args st of
        Inl e \<Rightarrow> Inl e
      | Inr rows \<Rightarrow> Inr (PList (map (row_json lib) rows), 200))"

subsection \<open>DELETE /api/measurements/<int:id>\<close>

text \<open>
  \<^verbatim>\<open>delete_measurement\<close>, lines 157 to 161. The URL converter \<^verbatim>\<open>int\<close> yields the integer
  of any run of digits, \<^verbatim>\<open>get_or_404\<close> selects the row by its primary key, binding the id
  as a parameter, and raises \<open>NotFound\<close> when there is none; \<^verbatim>\<open>db.session.delete(m)\<close>
  deletes by that key.
\<close>

definition delete_measurement ::
  "int \<Rightarrow> 'f measurement list \<Rightarrow> 'f result \<times> 'f measurement list" where
  "delete_measurement i st =
     (if \<not> int64 i then (Inl OverflowError, st)
      else (case find (\<lambda>m. m_id m = i) st of
              None \<Rightarrow> (Inl NotFound, st)
            | Some m \<Rightarrow>
                (Inr (PDict [(''status'', PStr ''deleted''), (''id'', PInt i)], 200),
                 filter (\<lambda>r. m_id r \<noteq> i) st)))"

subsection \<open>Writing a datetime\<close>

text \<open>
  \<^verbatim>\<open>strftime\<close> as CPython computes it on Linux: the format goes to the C library, and
  glibc writes \<^verbatim>\<open>%m %d %H %M %S\<close> with two digits and \<^verbatim>\<open>%Y\<close> as the decimal number of the
  year with no padding, so a year below 1000 has fewer than four digits. A format is read
  as a list of directives, blanks and literal characters.
\<close>

definition is_space :: "char \<Rightarrow> bool" where
  "is_space c = ((of_char c :: nat) \<in> {9, 10, 11, 12, 13, 32})"

datatype fmt_item = Directive char | Space | Literal char

fun fmt_items :: "string \<Rightarrow> fmt_item list" where
  "fmt_items [] = []"
| "fmt_items [c] = [if is_space c then Space else Literal c]"
| "fmt_items (c # d # cs) =
     (if c = CHR ''%'' then Directive d # fmt_items cs
      else (if is_space c then Space else Literal c) # fmt_items (d # cs))"

definition digit_char :: "nat \<Rightarrow> char" where
  "digit_char d = ''0123456789'' ! (d mod 10)"

definition pad2 :: "nat \<Rightarrow> string" where
  "pad2 n = [digit_char (n div 10 mod 10), digit_char (n mod 10)]"

definition pad4 :: "nat \<Rightarrow> string" where
  "pad4 n = pad2 (n div 100) @ pad2 n"

fun decimal :: "nat \<Rightarrow> string" where
  "decimal n = (if n < 10 then [digit_char n] else decimal (n div 10) @ [digit_char (n mod 10)])"

declare decimal.simps [simp del]

fun render_items :: "fmt_item list \<Rightarrow> datetime \<Rightarrow> string" where
  "render_items [] t = []"
| "render_items (Directive c # items) t =
     (if c = CHR ''Y'' then decimal (dt_year t)
      else if c = CHR ''m'' then pad2 (dt_month t)
      else if c = CHR ''d'' then pad2 (dt_day t)
      else if c = CHR ''H'' then pad2 (dt_hour t)
      else if c = CHR ''M'' then pad2 (dt_minute t)
      else if c = CHR ''S'' then pad2 (dt_second t)
      else [CHR ''%'', c]) @ render_items items t"
| "render_items (Space # items) t = CHR '' '' # render_items items t"
| "render_items (Literal c # items) t = c # render_items items t"

definition glibc_strftime :: "datetime \<Rightarrow> string \<Rightarrow> string" where
  "glibc_strftime t fmt = render_items (fmt_items fmt) t"


subsection \<open>A runtime for evaluation\<close>

text \<open>
  The theorems below hold for every runtime, or for every runtime with the formatter and
  the engine written out above. To evaluate the routes on concrete requests one runtime is
  written out in full, \<open>demo\<close>, with the rationals for the floats, \<open>glibc_strftime\<close> and
  \<open>index_scan\<close>. Its conversions follow CPython on a fragment of their inputs, which holds
  every input evaluated in this theory:
  \<^item> \<open>demo_float\<close> and \<open>demo_int\<close> read an optional sign and ASCII decimal digits
    (\<open>demo_float\<close> also a decimal point and a fraction), the rational standing for the
    double nearest to it;
  \<^item> \<open>demo_strptime\<close> reads the directives \<^verbatim>\<open>%Y %m %d %H %M %S\<close> as the regular
    expressions of CPython's \<^verbatim>\<open>_strptime\<close> do on ASCII input (one or two digits where
    the expression allows it, a run of blanks, tabs and line breaks for a blank of the
    format, letters compared without case, nothing left over), and refuses what the
    \<^verbatim>\<open>datetime\<close> constructor refuses (year 0, a day the month does not have, second 60
    or 61).
\<close>

definition digit_val :: "char \<Rightarrow> nat option" where
  "digit_val c = (if 48 \<le> (of_char c :: nat) \<and> (of_char c :: nat) \<le> 57 then Some (of_char c - 48) else None)"

definition lower :: "char \<Rightarrow> char" where
  "lower c = (if 65 \<le> (of_char c :: nat) \<and> (of_char c :: nat) \<le> 90 then char_of ((of_char c :: nat) + 32) else c)"

fun digits_val :: "string \<Rightarrow> nat \<Rightarrow> nat option" where
  "digits_val [] acc = Some acc"
| "digits_val (c # cs) acc = (case digit_val c of None \<Rightarrow> None | Some d \<Rightarrow> digits_val cs (10 * acc + d))"

definition nat_of_str :: "string \<Rightarrow> nat option" where
  "nat_of_str s = (if s = [] then None else digits_val s 0)"

definition unsign :: "string \<Rightarrow> bool \<times> string" where
  "unsign s = (case s of [] \<Rightarrow> (False, [])
      | c # cs \<Rightarrow> if c = CHR ''-'' then (True, cs) else if c = CHR ''+'' then (False, cs) else (False, s))"

definition demo_int :: "string \<Rightarrow> int option" where
  "demo_int s = (case unsign s of (neg, body) \<Rightarrow>
      (case nat_of_str body of None \<Rightarrow> None | Some n \<Rightarrow> Some (if neg then - int n else int n)))"

definition demo_float :: "string \<Rightarrow> rat option" where
  "demo_float s = (case unsign s of (neg, body) \<Rightarrow>
      (case nat_of_str (takeWhile (\<lambda>c. c \<noteq> CHR ''.'') body) of
         None \<Rightarrow> None
       | Some n \<Rightarrow>
          (case dropWhile (\<lambda>c. c \<noteq> CHR ''.'') body of
             [] \<Rightarrow> Some (if neg then - of_nat n else of_nat n)
           | dot # ds \<Rightarrow>
               (case digits_val ds 0 of
                  None \<Rightarrow> None
                | Some k \<Rightarrow>
                    Some ((if neg then - 1 else 1) * (of_nat n + of_nat k / 10 ^ length ds))))))"

definition two_digits :: "string \<Rightarrow> (nat \<times> string) option" where
  "two_digits s = (case s of
      a # b # cs \<Rightarrow> (case (digit_val a, digit_val b) of
          (Some x, Some y) \<Rightarrow> Some (10 * x + y, cs) | other \<Rightarrow> None)
    | other \<Rightarrow> None)"

definition one_digit :: "string \<Rightarrow> (nat \<times> string) option" where
  "one_digit s = (case s of
      a # cs \<Rightarrow> (case digit_val a of Some x \<Rightarrow> Some (x, cs) | None \<Rightarrow> None)
    | [] \<Rightarrow> None)"

definition field :: "nat \<Rightarrow> nat \<Rightarrow> nat \<Rightarrow> string \<Rightarrow> (nat \<times> string) option" where
  "field lo2 hi2 lo1 s =
     (case two_digits s of
        Some (n, cs) \<Rightarrow>
          if lo2 \<le> n \<and> n \<le> hi2 then Some (n, cs)
          else (case one_digit s of
                  Some (k, ds) \<Rightarrow> if lo1 \<le> k then Some (k, ds) else None
                | None \<Rightarrow> None)
      | None \<Rightarrow>
          (case one_digit s of
             Some (k, ds) \<Rightarrow> if lo1 \<le> k then Some (k, ds) else None
           | None \<Rightarrow> None))"

definition directive :: "char \<Rightarrow> string \<Rightarrow> datetime \<Rightarrow> (datetime \<times> string) option" where
  "directive c s t =
     (if c = CHR ''Y'' then
        (case two_digits s of
           Some (hi, cs) \<Rightarrow>
             (case two_digits cs of
                Some (lo, ds) \<Rightarrow> Some (t\<lparr>dt_year := 100 * hi + lo\<rparr>, ds)
              | None \<Rightarrow> None)
         | None \<Rightarrow> None)
      else if c = CHR ''m'' then
        (case field 1 12 1 s of Some (n, cs) \<Rightarrow> Some (t\<lparr>dt_month := n\<rparr>, cs) | None \<Rightarrow> None)
      else if c = CHR ''d'' then
        (case field 1 31 1 s of
           Some (n, cs) \<Rightarrow> Some (t\<lparr>dt_day := n\<rparr>, cs)
         | None \<Rightarrow>
             (case s of
                a # cs \<Rightarrow>
                  if a = CHR '' '' then
                    (case one_digit cs of
                       Some (k, ds) \<Rightarrow> if 1 \<le> k then Some (t\<lparr>dt_day := k\<rparr>, ds) else None
                     | None \<Rightarrow> None)
                  else None
              | [] \<Rightarrow> None))
      else if c = CHR ''H'' then
        (case field 0 23 0 s of Some (n, cs) \<Rightarrow> Some (t\<lparr>dt_hour := n\<rparr>, cs) | None \<Rightarrow> None)
      else if c = CHR ''M'' then
        (case field 0 59 0 s of Some (n, cs) \<Rightarrow> Some (t\<lparr>dt_minute := n\<rparr>, cs) | None \<Rightarrow> None)
      else if c = CHR ''S'' then
        (case field 0 61 0 s of Some (n, cs) \<Rightarrow> Some (t\<lparr>dt_second := n\<rparr>, cs) | None \<Rightarrow> None)
      else None)"

fun match_items :: "fmt_item list \<Rightarrow> string \<Rightarrow> datetime \<Rightarrow> datetime option" where
  "match_items [] s t = (if s = [] then Some t else None)"
| "match_items (Directive c # items) s t =
     (case directive c s t of Some (t', cs) \<Rightarrow> match_items items cs t' | None \<Rightarrow> None)"
| "match_items (Space # items) s t =
     (if s \<noteq> [] \<and> is_space (hd s) then match_items items (dropWhile is_space s) t else None)"
| "match_items (Literal c # items) s t =
     (case s of a # cs \<Rightarrow> if lower a = lower c then match_items items cs t else None
      | [] \<Rightarrow> None)"

definition leap_year :: "nat \<Rightarrow> bool" where
  "leap_year y = (y mod 4 = 0 \<and> (y mod 100 \<noteq> 0 \<or> y mod 400 = 0))"

definition days_in_month :: "nat \<Rightarrow> nat \<Rightarrow> nat" where
  "days_in_month y m =
     (if m = 2 then (if leap_year y then 29 else 28)
      else if m \<in> {4, 6, 9, 11} then 30 else 31)"

definition valid_datetime :: "datetime \<Rightarrow> bool" where
  "valid_datetime t =
     (1 \<le> dt_year t \<and> dt_year t \<le> 9999 \<and> 1 \<le> dt_month t \<and> dt_month t \<le> 12 \<and>
      1 \<le> dt_day t \<and> dt_day t \<le> days_in_month (dt_year t) (dt_month t) \<and>
      dt_hour t \<le> 23 \<and> dt_minute t \<le> 59 \<and> dt_second t \<le> 59 \<and> dt_microsecond t \<le> 999999)"

definition demo_strptime :: "string \<Rightarrow> string \<Rightarrow> datetime option" where
  "demo_strptime s fmt =
     (case match_items (fmt_items fmt) s
             \<lparr>dt_year = 1900, dt_month = 1, dt_day = 1, dt_hour = 0, dt_minute = 0,
              dt_second = 0, dt_microsecond = 0\<rparr> of
        Some t \<Rightarrow> if valid_datetime t then Some t else None
      | None \<Rightarrow> None)"

definition demo :: "rat runtime" where
  "demo =
     \<lparr>py_float_str = demo_float,
      py_float_int = (\<lambda>n. Some (of_int n)),
      py_float_bool = (\<lambda>x. x \<noteq> 0),
      py_int_str = demo_int,
      py_strptime = demo_strptime,
      py_strftime = glibc_strftime,
      sql_not_null = (\<lambda>x. True),
      sql_probe = (\<lambda>ids. None),
      sql_order_by = index_scan\<rparr>"

text \<open>The two moments of the evaluations: \<open>noon\<close> is read off the clock, \<open>at_1234\<close> is sent.\<close>

definition noon :: datetime where
  "noon = \<lparr>dt_year = 2025, dt_month = 12, dt_day = 5, dt_hour = 12, dt_minute = 0,
           dt_second = 0, dt_microsecond = 250000\<rparr>"

definition at_1234 :: datetime where
  "at_1234 = \<lparr>dt_year = 2025, dt_month = 12, dt_day = 5, dt_hour = 12, dt_minute = 34,
     dt_second = 56, dt_microsecond = 0\<rparr>"


subsection \<open>One request, two routes\<close>

text \<open>
  For the comparison of the two routes: a pair of optional strings, the raw value and the
  raw timestamp, is sent to the GET route as query parameters and to the POST route as the
  members of a JSON object, a member left out when the string is absent. The class of an
  answer is what the interface of the service distinguishes: the created record without
  its id, one of the validation errors with status 400, or an exception that leaves the
  route.
\<close>

definition query_of_pair :: "string option \<Rightarrow> string option \<Rightarrow> (string \<times> string) list" where
  "query_of_pair value_raw timestamp_raw =
     (case value_raw of None \<Rightarrow> [] | Some x \<Rightarrow> [(''value'', x)]) @
     (case timestamp_raw of None \<Rightarrow> [] | Some y \<Rightarrow> [(''timestamp'', y)])"

definition json_of_pair :: "string option \<Rightarrow> string option \<Rightarrow> 'f pyval" where
  "json_of_pair value_raw timestamp_raw =
     PDict ((case value_raw of None \<Rightarrow> [] | Some x \<Rightarrow> [(''value'', PStr x)]) @
            (case timestamp_raw of None \<Rightarrow> [] | Some y \<Rightarrow> [(''timestamp'', PStr y)]))"

datatype 'f outcome =
    Created "(string \<times> 'f pyval) list"
  | MissingValue
  | NotNumeric
  | BadTimestamp
  | InvalidJson
  | Raised failure
  | Unclassified

definition response_class :: "'f result \<Rightarrow> 'f outcome" where
  "response_class r =
     (case r of
        Inl e \<Rightarrow> Raised e
      | Inr (body, code) \<Rightarrow>
          if code = 400 then
            (if body = error_json msg_get_missing \<or> body = error_json msg_post_missing
             then MissingValue
             else if body = error_json msg_not_numeric then NotNumeric
             else if body = error_json msg_get_timestamp \<or> body = error_json msg_post_timestamp
             then BadTimestamp
             else if body = error_json msg_json then InvalidJson
             else Unclassified)
          else if code = 201 then
            (case body of
               PDict kvs \<Rightarrow> Created (filter (\<lambda>kv. fst kv \<noteq> ''id'') kvs)
             | other \<Rightarrow> Unclassified)
          else Unclassified)"

text \<open>A table of two rows for the evaluations.\<close>

definition two_rows :: "rat measurement list" where
  "two_rows =
     [\<lparr>m_id = 1, m_timestamp = noon, m_value = 257 / 10\<rparr>,
      \<lparr>m_id = 2, m_timestamp = at_1234, m_value = 301 / 10\<rparr>]"

subsection \<open>The listing before the limit\<close>

text \<open>
  For the statements about \<^verbatim>\<open>list_measurements\<close>: \<open>ordered_query\<close> is the query \<^verbatim>\<open>q\<close> after
  line 146, the whole table in the order the parameter \<^verbatim>\<open>order\<close> asks for, and
  \<open>limit_fits\<close> says that the parameter \<^verbatim>\<open>limit\<close>, when it is an integer, is one the driver
  can bind.
\<close>

definition ordered_query ::
  "'f runtime \<Rightarrow> (string \<times> string) list \<Rightarrow> 'f measurement list \<Rightarrow> 'f measurement list" where
  "ordered_query lib args st =
     sql_order_by lib (if map_of args ''order'' = Some ''desc'' then Desc else Asc) st"

definition limit_fits :: "'f runtime \<Rightarrow> (string \<times> string) list \<Rightarrow> bool" where
  "limit_fits lib args =
     (case map_of args ''limit'' of
        None \<Rightarrow> True
      | Some s \<Rightarrow> (case py_int_str lib s of None \<Rightarrow> True | Some n \<Rightarrow> int64 n))"

text \<open>Two rows with the same timestamp.\<close>

definition tie_rows :: "rat measurement list" where
  "tie_rows =
     [\<lparr>m_id = 1, m_timestamp = noon, m_value = 257 / 10\<rparr>,
      \<lparr>m_id = 2, m_timestamp = noon, m_value = 301 / 10\<rparr>]"

section \<open>Properties\<close>

subsection \<open>Auxiliary facts\<close>

lemmas demo_eval =
  demo_strptime_def fmt_space_def fmt_T_def is_space_def lower_def digit_val_def two_digits_def
  one_digit_def field_def directive_def valid_datetime_def days_in_month_def leap_year_def
  glibc_strftime_def pad2_def pad4_def digit_char_def decimal.simps
  demo_float_def demo_int_def unsign_def nat_of_str_def

lemma demo_fields:
  "py_float_str demo = demo_float" "py_float_int demo = (\<lambda>n. Some (of_int n))"
  "py_float_bool demo = (\<lambda>x. x \<noteq> 0)" "py_int_str demo = demo_int"
  "py_strptime demo = demo_strptime" "py_strftime demo = glibc_strftime"
  "sql_not_null demo = (\<lambda>x. True)" "sql_probe demo = (\<lambda>ids. None)"
  "sql_order_by demo = index_scan"
  by (simp_all add: demo_def)


lemma messages_distinct:
  "msg_json \<noteq> msg_post_missing" "msg_get_missing \<noteq> msg_get_timestamp"
  "msg_not_numeric \<noteq> msg_get_timestamp" "msg_post_missing \<noteq> msg_post_timestamp"
  "msg_not_numeric \<noteq> msg_post_timestamp" "msg_json \<noteq> msg_post_timestamp"
  by (simp_all add: msg_json_def msg_post_missing_def msg_get_missing_def msg_get_timestamp_def
      msg_not_numeric_def msg_post_timestamp_def)

lemma create_row_cases:
  "(\<exists>e. create_row lib t v st = (Inl e, st)) \<or>
   (\<exists>i. create_row lib t v st =
      (Inr (row_json lib \<lparr>m_id = i, m_timestamp = t, m_value = v\<rparr>, 201),
       st @ [\<lparr>m_id = i, m_timestamp = t, m_value = v\<rparr>]))"
  by (auto simp: create_row_def split: sum.splits)


lemma lex_pair_fst:
  fixes a c :: "'a::linorder" and b d :: "'b::linorder"
  assumes "(a, b) \<le> (c, d)"
  shows "a \<le> c"
  using assms by (auto simp: less_eq_prod_def)

lemma index_scan_meets_contract:
  assumes "sql_order_by lib = index_scan"
  shows "order_ok lib d st"
proof -
  let ?f = "\<lambda>m. (dt_key (m_timestamp m), m_id m)"
  have "sorted (map ?f (sort_key ?f st))" by (rule sorted_sort_key)
  then have "sorted_wrt (\<lambda>a b. ?f a \<le> ?f b) (sort_key ?f st)"
    by (simp add: sorted_wrt_map)
  then have up: "sorted_wrt (\<lambda>a b. dt_key (m_timestamp a) \<le> dt_key (m_timestamp b)) (sort_key ?f st)"
    by (rule sorted_wrt_mono_rel[rotated]) (rule lex_pair_fst)
  then have down:
    "sorted_wrt (\<lambda>a b. dt_key (m_timestamp b) \<le> dt_key (m_timestamp a)) (rev (sort_key ?f st))"
    by (simp add: sorted_wrt_rev)
  show ?thesis
    using up down by (cases d) (simp_all add: order_ok_def assms index_scan_def in_order_def sorted_wrt_map)
qed




subsection \<open>The empty-body guard of the POST route\<close>

text \<open>
  Claim C10. A POST request whose body parses to a falsy JSON document (the empty object,
  the empty array, the empty string, zero, false, null) is answered with status 400 and
  the invalid-or-empty-JSON message, and nothing is stored. The answer is the one a body
  that is not JSON gets (\<^verbatim>\<open>get_json(silent=True)\<close> returns \<^verbatim>\<open>None\<close> for it), and it is not
  the missing-value answer.
\<close>

theorem create_measurement_falsy_json:
  assumes "\<not> py_truthy lib data"
  shows "create_measurement lib now data st = (Inr (error_json msg_json, 400), st) \<and>
         create_measurement lib now data st = create_measurement lib now PNone st \<and>
         fst (create_measurement lib now data st) \<noteq> Inr (error_json msg_post_missing, 400)"
  using assms messages_distinct(1) by (simp add: create_measurement_def error_json_def)

theorem create_measurement_falsy_json_witness:
  "\<not> py_truthy demo (PDict []) \<and>
   create_measurement demo noon (PDict []) [] = (Inr (error_json msg_json, 400), []) \<and>
   create_measurement demo noon (PDict []) [] = create_measurement demo noon PNone [] \<and>
   fst (create_measurement demo noon (PDict []) []) \<noteq> Inr (error_json msg_post_missing, 400)"
proof -
  have h: "\<not> py_truthy demo (PDict [])" by simp
  from create_measurement_falsy_json[OF h, of noon "[]"] h show ?thesis by blast
qed

subsection \<open>Evaluations of the runtime\<close>

lemma demo_strptime_examples:
  "demo_strptime ''2025-12-05 12:34:56'' fmt_space = Some at_1234"
  "demo_strptime ''2025-12-05T12:34:56'' fmt_space = None"
  "demo_strptime ''2025-12-05T12:34:56'' fmt_T = Some at_1234"
  "demo_strptime ''05/12/2025'' fmt_space = None"
  "demo_strptime ''05/12/2025'' fmt_T = None"
  "demo_strptime [] fmt_space = None"
  "demo_strptime [] fmt_T = None"
  by (simp_all add: demo_eval at_1234_def)

lemma demo_strftime_examples:
  "glibc_strftime at_1234 fmt_space = ''2025-12-05 12:34:56''"
  "glibc_strftime noon fmt_space = ''2025-12-05 12:00:00''"
  by (simp_all add: demo_eval at_1234_def noon_def)

lemma demo_float_examples:
  "demo_float ''25.7'' = Some (257 / 10)"
  "demo_float ''30.1'' = Some (301 / 10)"
  "demo_float ''abc'' = None"
  by (simp_all add: demo_eval)

lemma demo_create_row_empty:
  "create_row demo t v [] =
     (Inr (PDict [(''id'', PInt 1), (''timestamp'', PStr (glibc_strftime t fmt_space)),
                  (''value'', PFloat v)], 201),
      [\<lparr>m_id = 1, m_timestamp = t, m_value = v\<rparr>])"
  by (simp add: create_row_def new_rowid_def row_json_def demo_fields)

lemma py_in_dict: "py_in k (PDict kvs) = Inr (map_of kvs k \<noteq> None)"
  by (simp add: map_of_eq_None_iff)

subsection \<open>An empty timestamp\<close>




subsection \<open>Created rows and listings\<close>

lemma create_row_created:
  assumes "create_row lib t v st = (Inr (body, code), st')"
  shows "\<exists>i. body = row_json lib \<lparr>m_id = i, m_timestamp = t, m_value = v\<rparr> \<and> code = 201 \<and>
             st' = st @ [\<lparr>m_id = i, m_timestamp = t, m_value = v\<rparr>]"
  using assms create_row_cases[of lib t v st] by auto


subsection \<open>The two timestamp formats\<close>

text \<open>
  Claim C6, as amended. For a request to add a measurement whose value converts to a
  float and whose timestamp is a string that is not empty, the routes try the format
  \<^verbatim>\<open>%Y-%m-%d %H:%M:%S\<close> first and store its result when it matches, try
  \<^verbatim>\<open>%Y-%m-%dT%H:%M:%S\<close> only when the first has failed, and when both fail answer with
  status 400 and the timestamp-format message, the table unchanged. The claim as stated
  covers every present timestamp; the empty string is present, neither format matches it,
  and the routes store the measurement with the current time (the evaluation below).
\<close>

theorem timestamp_formats_in_order:
  "(map_of args ''value'' = Some val_str \<and> py_float_str lib val_str = Some v \<and>
    map_of args ''timestamp'' = Some ts \<and> ts \<noteq> [] \<longrightarrow>
      add_measurement_via_get lib now args st =
        (case py_strptime lib ts fmt_space of
           Some t \<Rightarrow> create_row lib t v st
         | None \<Rightarrow>
             (case py_strptime lib ts fmt_T of
                Some t \<Rightarrow> create_row lib t v st
              | None \<Rightarrow> (Inr (error_json msg_get_timestamp, 400), st)))) \<and>
   (map_of kvs ''value'' = Some x \<and> py_float lib x = Inr v \<and>
    map_of kvs ''timestamp'' = Some (PStr ts) \<and> ts \<noteq> [] \<longrightarrow>
      create_measurement lib now (PDict kvs) st =
        (case py_strptime lib ts fmt_space of
           Some t \<Rightarrow> create_row lib t v st
         | None \<Rightarrow>
             (case py_strptime lib ts fmt_T of
                Some t \<Rightarrow> create_row lib t v st
              | None \<Rightarrow> (Inr (error_json msg_post_timestamp, 400), st))))"
proof (intro conjI impI)
  assume "map_of args ''value'' = Some val_str \<and> py_float_str lib val_str = Some v \<and>
    map_of args ''timestamp'' = Some ts \<and> ts \<noteq> []"
  then show "add_measurement_via_get lib now args st =
        (case py_strptime lib ts fmt_space of
           Some t \<Rightarrow> create_row lib t v st
         | None \<Rightarrow>
             (case py_strptime lib ts fmt_T of
                Some t \<Rightarrow> create_row lib t v st
              | None \<Rightarrow> (Inr (error_json msg_get_timestamp, 400), st)))"
    by (simp add: add_measurement_via_get_def)
next
  assume a: "map_of kvs ''value'' = Some x \<and> py_float lib x = Inr v \<and>
    map_of kvs ''timestamp'' = Some (PStr ts) \<and> ts \<noteq> []"
  then have "kvs \<noteq> []" by auto
  with a show "create_measurement lib now (PDict kvs) st =
        (case py_strptime lib ts fmt_space of
           Some t \<Rightarrow> create_row lib t v st
         | None \<Rightarrow>
             (case py_strptime lib ts fmt_T of
                Some t \<Rightarrow> create_row lib t v st
              | None \<Rightarrow> (Inr (error_json msg_post_timestamp, 400), st)))"
    by (simp add: create_measurement_def py_in_dict dict_get_def del: py_in.simps
        split: option.splits)
qed

theorem timestamp_formats_in_order_witness:
  "map_of [(''value'', ''25.7''), (''timestamp'', ''2025-12-05T12:34:56'')] ''value'' = Some ''25.7'' \<and>
   py_float_str demo ''25.7'' = Some (257 / 10) \<and>
   map_of [(''value'', ''25.7''), (''timestamp'', ''2025-12-05T12:34:56'')] ''timestamp'' =
     Some ''2025-12-05T12:34:56'' \<and>
   ''2025-12-05T12:34:56'' \<noteq> [] \<and>
   py_strptime demo ''2025-12-05T12:34:56'' fmt_space = None \<and>
   py_strptime demo ''2025-12-05T12:34:56'' fmt_T = Some at_1234 \<and>
   add_measurement_via_get demo noon
     [(''value'', ''25.7''), (''timestamp'', ''2025-12-05T12:34:56'')] [] =
     create_row demo at_1234 (257 / 10) [] \<and>
   map_of [(''value'', PStr ''25.7''), (''timestamp'', PStr ''2025-12-05T12:34:56'')] ''value'' =
     Some (PStr ''25.7'') \<and>
   py_float demo (PStr ''25.7'') = Inr (257 / 10) \<and>
   map_of [(''value'', PStr ''25.7''), (''timestamp'', PStr ''2025-12-05T12:34:56'')] ''timestamp'' =
     Some (PStr ''2025-12-05T12:34:56'') \<and>
   create_measurement demo noon
     (PDict [(''value'', PStr ''25.7''), (''timestamp'', PStr ''2025-12-05T12:34:56'')]) [] =
     create_row demo at_1234 (257 / 10) []"
proof -
  have a: "map_of [(''value'', ''25.7''), (''timestamp'', ''2025-12-05T12:34:56'')] ''value'' = Some ''25.7''"
    and b: "py_float_str demo ''25.7'' = Some (257 / 10)"
    and c: "map_of [(''value'', ''25.7''), (''timestamp'', ''2025-12-05T12:34:56'')] ''timestamp'' =
              Some ''2025-12-05T12:34:56''"
    and d: "''2025-12-05T12:34:56'' \<noteq> []"
    and e: "py_strptime demo ''2025-12-05T12:34:56'' fmt_space = None"
    and f: "py_strptime demo ''2025-12-05T12:34:56'' fmt_T = Some at_1234"
    and g: "map_of [(''value'', PStr ''25.7''), (''timestamp'', PStr ''2025-12-05T12:34:56'')] ''value'' =
              Some (PStr ''25.7'')"
    and h: "py_float demo (PStr ''25.7'') = Inr (257 / 10)"
    and i: "map_of [(''value'', PStr ''25.7''), (''timestamp'', PStr ''2025-12-05T12:34:56'')] ''timestamp'' =
              Some (PStr ''2025-12-05T12:34:56'')"
    by (simp_all add: demo_fields demo_float_examples demo_strptime_examples)
  note th = timestamp_formats_in_order
         [where args = "[(''value'', ''25.7''), (''timestamp'', ''2025-12-05T12:34:56'')]"
            and val_str = "''25.7''" and lib = demo and v = "257 / 10"
            and ts = "''2025-12-05T12:34:56''" and now = noon and st = "[]"
            and kvs = "[(''value'', PStr ''25.7''), (''timestamp'', PStr ''2025-12-05T12:34:56'')]"
            and x = "PStr ''25.7''"]
  have ga: "add_measurement_via_get demo noon
          [(''value'', ''25.7''), (''timestamp'', ''2025-12-05T12:34:56'')] [] =
        create_row demo at_1234 (257 / 10) []"
    using th a b c d by (simp add: e f)
  have po: "create_measurement demo noon
          (PDict [(''value'', PStr ''25.7''), (''timestamp'', PStr ''2025-12-05T12:34:56'')]) [] =
        create_row demo at_1234 (257 / 10) []"
    using th g h i d by (simp add: e f)
  show ?thesis by (intro conjI) (rule a b c d e f g h i ga po)+
qed

text \<open>
  The claim as stated fails at the empty timestamp: neither format matches the empty
  string, and both routes answer 201 and store a row.
\<close>

theorem empty_timestamp_is_stored:
  "py_strptime demo [] fmt_space = None \<and> py_strptime demo [] fmt_T = None \<and>
   add_measurement_via_get demo noon [(''value'', ''25.7''), (''timestamp'', [])] [] =
     (Inr (PDict [(''id'', PInt 1), (''timestamp'', PStr ''2025-12-05 12:00:00''),
                  (''value'', PFloat (257 / 10))], 201),
      [\<lparr>m_id = 1, m_timestamp = noon, m_value = 257 / 10\<rparr>]) \<and>
   create_measurement demo noon (PDict [(''value'', PStr ''25.7''), (''timestamp'', PStr [])]) [] =
     (Inr (PDict [(''id'', PInt 1), (''timestamp'', PStr ''2025-12-05 12:00:00''),
                  (''value'', PFloat (257 / 10))], 201),
      [\<lparr>m_id = 1, m_timestamp = noon, m_value = 257 / 10\<rparr>])"
  by (simp add: add_measurement_via_get_def create_measurement_def dict_get_def demo_fields
      demo_strptime_examples demo_float_examples demo_strftime_examples demo_create_row_empty)

subsection \<open>Classes of answers\<close>

lemma messages_distinct_all:
  "msg_get_missing \<noteq> msg_not_numeric" "msg_post_missing \<noteq> msg_not_numeric"
  "msg_get_missing \<noteq> msg_json" "msg_not_numeric \<noteq> msg_json"
  "msg_get_timestamp \<noteq> msg_json" "msg_post_timestamp \<noteq> msg_json"
  "msg_get_timestamp \<noteq> msg_post_missing" "msg_get_missing \<noteq> msg_post_timestamp"
  "msg_get_missing \<noteq> msg_post_missing" "msg_get_timestamp \<noteq> msg_post_timestamp"
  by (simp_all add: msg_json_def msg_post_missing_def msg_get_missing_def msg_get_timestamp_def
      msg_not_numeric_def msg_post_timestamp_def)

lemma response_class_errors:
  "response_class (Inr (error_json msg_get_missing, 400)) = MissingValue"
  "response_class (Inr (error_json msg_post_missing, 400)) = MissingValue"
  "response_class (Inr (error_json msg_not_numeric, 400)) = NotNumeric"
  "response_class (Inr (error_json msg_get_timestamp, 400)) = BadTimestamp"
  "response_class (Inr (error_json msg_post_timestamp, 400)) = BadTimestamp"
  "response_class (Inr (error_json msg_json, 400)) = InvalidJson"
  using messages_distinct messages_distinct_all
  by (auto simp: response_class_def error_json_def)

lemma response_class_create_row:
  "response_class (fst (create_row lib t v st)) \<noteq> Unclassified"
  using create_row_cases[of lib t v st]
  by (auto simp: response_class_def row_json_def)

lemma demo_add_get_T:
  "add_measurement_via_get demo noon
     [(''value'', ''25.7''), (''timestamp'', ''2025-12-05T12:34:56'')] [] =
   (Inr (PDict [(''id'', PInt 1), (''timestamp'', PStr ''2025-12-05 12:34:56''),
                (''value'', PFloat (257 / 10))], 201),
    [\<lparr>m_id = 1, m_timestamp = at_1234, m_value = 257 / 10\<rparr>])"
  by (simp add: add_measurement_via_get_def demo_fields demo_strptime_examples
      demo_float_examples demo_strftime_examples demo_create_row_empty)

lemma demo_create_T:
  "create_measurement demo noon
     (PDict [(''value'', PStr ''25.7''), (''timestamp'', PStr ''2025-12-05T12:34:56'')]) [] =
   (Inr (PDict [(''id'', PInt 1), (''timestamp'', PStr ''2025-12-05 12:34:56''),
                (''value'', PFloat (257 / 10))], 201),
    [\<lparr>m_id = 1, m_timestamp = at_1234, m_value = 257 / 10\<rparr>])"
  by (simp add: create_measurement_def dict_get_def demo_fields demo_strptime_examples
      demo_float_examples demo_strftime_examples demo_create_row_empty)

subsection \<open>The round trip of a timestamp\<close>






subsection \<open>The GET route and the POST route\<close>

text \<open>
  Claim C2, as amended. For every pair of a raw value and a raw timestamp, either of
  which may be absent but not both, the GET route on the pair as query parameters and the
  POST route on the pair as a JSON object give the same outcome on the same table: the
  same created record with status 201, or the same class of validation error with status
  400 (missing value, value not numeric, invalid timestamp format), and they leave the
  same table. With both absent the routes differ (the evaluation below).
\<close>

theorem get_and_post_agree:
  assumes "value_raw \<noteq> None \<or> timestamp_raw \<noteq> None"
  shows
    "response_class
       (fst (add_measurement_via_get lib now (query_of_pair value_raw timestamp_raw) st)) =
     response_class
       (fst (create_measurement lib now (json_of_pair value_raw timestamp_raw) st)) \<and>
     snd (add_measurement_via_get lib now (query_of_pair value_raw timestamp_raw) st) =
     snd (create_measurement lib now (json_of_pair value_raw timestamp_raw) st) \<and>
     response_class
       (fst (add_measurement_via_get lib now (query_of_pair value_raw timestamp_raw) st)) \<noteq>
     Unclassified \<and>
     response_class
       (fst (add_measurement_via_get lib now (query_of_pair value_raw timestamp_raw) st)) \<noteq>
     InvalidJson"
proof (cases value_raw)
  case None
  with assms obtain y where "timestamp_raw = Some y" by auto
  with None show ?thesis
    by (simp add: query_of_pair_def json_of_pair_def add_measurement_via_get_def
        create_measurement_def response_class_errors)
next
  case (Some x)
  show ?thesis
  proof (cases "py_float_str lib x")
    case None
    with Some show ?thesis
      by (cases timestamp_raw)
        (simp_all add: query_of_pair_def json_of_pair_def add_measurement_via_get_def
          create_measurement_def response_class_errors)
  next
    case v: (Some v)
    have cr: "response_class (fst (create_row lib t v st)) \<noteq> InvalidJson" for t
      using create_row_cases[of lib t v st]
      by (auto simp: response_class_def row_json_def)
    show ?thesis
    proof (cases timestamp_raw)
      case None
      with Some v show ?thesis
        by (simp add: query_of_pair_def json_of_pair_def add_measurement_via_get_def
            create_measurement_def dict_get_def response_class_create_row cr)
    next
      case ts: (Some y)
      with Some v show ?thesis
        by (simp add: query_of_pair_def json_of_pair_def add_measurement_via_get_def
            create_measurement_def dict_get_def response_class_create_row cr
            response_class_errors split: option.splits)
    qed
  qed
qed

theorem get_and_post_agree_witness:
  "query_of_pair (Some ''25.7'') (Some ''2025-12-05T12:34:56'') =
     [(''value'', ''25.7''), (''timestamp'', ''2025-12-05T12:34:56'')] \<and>
   response_class
     (fst (add_measurement_via_get demo noon
        (query_of_pair (Some ''25.7'') (Some ''2025-12-05T12:34:56'')) [])) =
   response_class
     (fst (create_measurement demo noon
        (json_of_pair (Some ''25.7'') (Some ''2025-12-05T12:34:56'')) [])) \<and>
   response_class
     (fst (add_measurement_via_get demo noon
        (query_of_pair (Some ''25.7'') (Some ''2025-12-05T12:34:56'')) [])) =
   Created [(''timestamp'', PStr ''2025-12-05 12:34:56''), (''value'', PFloat (257 / 10))]"
proof -
  have a: "Some ''25.7'' \<noteq> None \<or> Some ''2025-12-05T12:34:56'' \<noteq> None" by simp
  have b: "query_of_pair (Some ''25.7'') (Some ''2025-12-05T12:34:56'') =
     [(''value'', ''25.7''), (''timestamp'', ''2025-12-05T12:34:56'')]"
    by (simp add: query_of_pair_def)
  have c: "response_class
     (fst (add_measurement_via_get demo noon
        (query_of_pair (Some ''25.7'') (Some ''2025-12-05T12:34:56'')) [])) =
   Created [(''timestamp'', PStr ''2025-12-05 12:34:56''), (''value'', PFloat (257 / 10))]"
    by (simp add: b demo_add_get_T response_class_def)
  have d: "response_class
     (fst (add_measurement_via_get demo noon
        (query_of_pair (Some ''25.7'') (Some ''2025-12-05T12:34:56'')) [])) =
   response_class
     (fst (create_measurement demo noon
        (json_of_pair (Some ''25.7'') (Some ''2025-12-05T12:34:56'')) []))"
    using get_and_post_agree[OF a, of demo noon "[]"] by blast
  show ?thesis
    by (intro conjI) (rule b c d)+
qed

text \<open>
  The claim as stated fails at the pair with both strings absent: the GET route answers
  with the missing-value error, the POST route, whose body is then the empty object, with
  the invalid-or-empty-JSON error of line 108.
\<close>

theorem both_absent_differ:
  "response_class (fst (add_measurement_via_get demo noon (query_of_pair None None) [])) =
     MissingValue \<and>
   response_class (fst (create_measurement demo noon (json_of_pair None None) [])) =
     InvalidJson \<and>
   add_measurement_via_get demo noon (query_of_pair None None) [] =
     (Inr (error_json msg_get_missing, 400), []) \<and>
   create_measurement demo noon (json_of_pair None None) [] =
     (Inr (error_json msg_json, 400), [])"
  by (simp add: query_of_pair_def json_of_pair_def add_measurement_via_get_def
      create_measurement_def response_class_errors)

subsection \<open>Rowids, deletions, and evaluations on small tables\<close>

lemma add_get_is_create_row:
  assumes "add_measurement_via_get lib now args st = (Inr (body, 201), st')"
  shows "\<exists>t v. create_row lib t v st = (Inr (body, 201), st')"
  using assms
  by (auto simp: add_measurement_via_get_def error_json_def split: option.splits if_splits)

lemma create_measurement_is_create_row:
  assumes "create_measurement lib now data st = (Inr (body, 201), st')"
  shows "\<exists>t v. create_row lib t v st = (Inr (body, 201), st')"
  using assms
  by (auto simp: create_measurement_def error_json_def
      split: option.splits sum.splits bool.splits if_splits pyval.splits)

lemma new_rowid_unused:
  assumes "new_rowid lib st = Inr i"
  shows "i \<notin> set (map m_id st)"
proof (cases "st = []")
  case True
  then show ?thesis by simp
next
  case False
  show ?thesis
  proof (cases "Max (set (map m_id st)) < max_rowid")
    case True
    with False assms have i: "i = Max (set (map m_id st)) + 1"
      by (simp add: new_rowid_def)
    show ?thesis
    proof
      assume "i \<in> set (map m_id st)"
      then have "i \<le> Max (set (map m_id st))" by (intro Max_ge) auto
      with i show False by simp
    qed
  next
    case b: False
    with False assms show ?thesis
      by (auto simp: new_rowid_def split: option.splits if_splits)
  qed
qed

lemma new_rowid_above:
  assumes "new_rowid lib st = Inr i" and "st = [] \<or> Max (set (map m_id st)) < max_rowid"
  shows "i = (if st = [] then 1 else Max (set (map m_id st)) + 1) \<and> (\<forall>m \<in> set st. m_id m < i)"
proof (cases "st = []")
  case True
  with assms show ?thesis by (simp add: new_rowid_def)
next
  case False
  with assms have i: "i = Max (set (map m_id st)) + 1"
    by (simp add: new_rowid_def)
  have "m_id m < i" if "m \<in> set st" for m
  proof -
    have "m_id m \<le> Max (set (map m_id st))" using that by (intro Max_ge) auto
    with i show ?thesis by simp
  qed
  with i False show ?thesis by simp
qed

lemma create_row_id:
  assumes "create_row lib t v st = (Inr (PDict kvs, code), st')"
    and "map_of kvs ''id'' = Some (PInt i)"
  shows "new_rowid lib st = Inr i \<and> st' = st @ [\<lparr>m_id = i, m_timestamp = t, m_value = v\<rparr>]"
  using assms
  by (auto simp: create_row_def row_json_def split: sum.splits if_splits)

lemma length_filter_other_ids:
  assumes "distinct (map f xs)" and "x \<in> set (map f xs)"
  shows "length (filter (\<lambda>r. f r \<noteq> x) xs) + 1 = length xs"
  using assms
proof (induction xs)
  case Nil
  then show ?case by simp
next
  case (Cons a xs)
  show ?case
  proof (cases "f a = x")
    case True
    with Cons.prems have "x \<notin> set (map f xs)" by auto
    then have "filter (\<lambda>r. f r \<noteq> x) xs = xs" by (auto simp: filter_id_conv)
    with True show ?thesis by simp
  next
    case False
    with Cons show ?thesis by auto
  qed
qed

lemma find_id_None: "find (\<lambda>m. m_id m = i) st = None \<longleftrightarrow> i \<notin> set (map m_id st)"
  by (auto simp: find_None_iff)

lemma demo_add_get_now:
  "add_measurement_via_get demo noon [(''value'', ''25.7'')] [] =
   (Inr (PDict [(''id'', PInt 1), (''timestamp'', PStr ''2025-12-05 12:00:00''),
                (''value'', PFloat (257 / 10))], 201),
    [\<lparr>m_id = 1, m_timestamp = noon, m_value = 257 / 10\<rparr>])"
  by (simp add: add_measurement_via_get_def demo_fields demo_float_examples
      demo_strftime_examples demo_create_row_empty)

lemma demo_add_get_later:
  "add_measurement_via_get demo at_1234 [(''value'', ''30.1'')] [] =
   (Inr (PDict [(''id'', PInt 1), (''timestamp'', PStr ''2025-12-05 12:34:56''),
                (''value'', PFloat (301 / 10))], 201),
    [\<lparr>m_id = 1, m_timestamp = at_1234, m_value = 301 / 10\<rparr>])"
  by (simp add: add_measurement_via_get_def demo_fields demo_float_examples
      demo_strftime_examples demo_create_row_empty)

lemma demo_delete_first:
  "delete_measurement 1 [\<lparr>m_id = 1, m_timestamp = noon, m_value = 257 / 10 :: rat\<rparr>] =
   (Inr (PDict [(''status'', PStr ''deleted''), (''id'', PInt 1)], 200), [])"
  by (simp add: delete_measurement_def int64_def max_rowid_def)

lemma demo_add_get_third:
  "add_measurement_via_get demo noon [(''value'', ''25.7'')] two_rows =
   (Inr (PDict [(''id'', PInt 3), (''timestamp'', PStr ''2025-12-05 12:00:00''),
                (''value'', PFloat (257 / 10))], 201),
    two_rows @ [\<lparr>m_id = 3, m_timestamp = noon, m_value = 257 / 10\<rparr>])"
  by (simp add: add_measurement_via_get_def demo_fields demo_float_examples
      demo_strftime_examples create_row_def new_rowid_def row_json_def two_rows_def max_rowid_def)

subsection \<open>The ids of new rows\<close>

text \<open>
  Claim C1, as amended. A measurement that either route stores is given an id that no row
  of the table has at that moment; while the largest id of the table is below the largest
  rowid there is, the new id is that largest id plus one (1 on an empty table), hence
  strictly greater than the id of every row stored at that moment. Ids increase for as
  long as the row with the largest id is not deleted; the id of a deleted row that had
  the largest id is given out again (the evaluation below).
\<close>

theorem new_id_above_stored_ids:
  "(add_measurement_via_get lib now args st = (Inr (PDict kvs, 201), st') \<and>
    map_of kvs ''id'' = Some (PInt i) \<longrightarrow>
      i \<notin> set (map m_id st) \<and> map m_id st' = map m_id st @ [i] \<and>
      (st = [] \<or> Max (set (map m_id st)) < max_rowid \<longrightarrow>
         i = (if st = [] then 1 else Max (set (map m_id st)) + 1) \<and>
         (\<forall>m \<in> set st. m_id m < i))) \<and>
   (create_measurement lib now data st = (Inr (PDict kvs, 201), st') \<and>
    map_of kvs ''id'' = Some (PInt i) \<longrightarrow>
      i \<notin> set (map m_id st) \<and> map m_id st' = map m_id st @ [i] \<and>
      (st = [] \<or> Max (set (map m_id st)) < max_rowid \<longrightarrow>
         i = (if st = [] then 1 else Max (set (map m_id st)) + 1) \<and>
         (\<forall>m \<in> set st. m_id m < i)))"
proof -
  have main: "i \<notin> set (map m_id st) \<and> map m_id st' = map m_id st @ [i] \<and>
      (st = [] \<or> Max (set (map m_id st)) < max_rowid \<longrightarrow>
         i = (if st = [] then 1 else Max (set (map m_id st)) + 1) \<and>
         (\<forall>m \<in> set st. m_id m < i))"
    if c: "create_row lib t v st = (Inr (PDict kvs, 201), st')"
      and k: "map_of kvs ''id'' = Some (PInt i)" for t v
  proof -
    from create_row_id[OF c k] have n: "new_rowid lib st = Inr i"
      and s: "st' = st @ [\<lparr>m_id = i, m_timestamp = t, m_value = v\<rparr>]" by auto
    from new_rowid_unused[OF n] new_rowid_above[OF n] s show ?thesis by simp
  qed
  show ?thesis
  proof (rule conjI; rule impI)
    assume a: "add_measurement_via_get lib now args st = (Inr (PDict kvs, 201), st') \<and>
      map_of kvs ''id'' = Some (PInt i)"
    then obtain t v where "create_row lib t v st = (Inr (PDict kvs, 201), st')"
      using add_get_is_create_row by blast
    with a main
    show "i \<notin> set (map m_id st) \<and> map m_id st' = map m_id st @ [i] \<and>
      (st = [] \<or> Max (set (map m_id st)) < max_rowid \<longrightarrow>
         i = (if st = [] then 1 else Max (set (map m_id st)) + 1) \<and>
         (\<forall>m \<in> set st. m_id m < i))"
      by blast
  next
    assume a: "create_measurement lib now data st = (Inr (PDict kvs, 201), st') \<and>
      map_of kvs ''id'' = Some (PInt i)"
    then obtain t v where "create_row lib t v st = (Inr (PDict kvs, 201), st')"
      using create_measurement_is_create_row by blast
    with a main
    show "i \<notin> set (map m_id st) \<and> map m_id st' = map m_id st @ [i] \<and>
      (st = [] \<or> Max (set (map m_id st)) < max_rowid \<longrightarrow>
         i = (if st = [] then 1 else Max (set (map m_id st)) + 1) \<and>
         (\<forall>m \<in> set st. m_id m < i))"
      by blast
  qed
qed

theorem new_id_above_stored_ids_witness:
  "add_measurement_via_get demo noon [(''value'', ''25.7'')] two_rows =
     (Inr (PDict [(''id'', PInt 3), (''timestamp'', PStr ''2025-12-05 12:00:00''),
                  (''value'', PFloat (257 / 10))], 201),
      two_rows @ [\<lparr>m_id = 3, m_timestamp = noon, m_value = 257 / 10\<rparr>]) \<and>
   map_of [(''id'', PInt 3), (''timestamp'', PStr ''2025-12-05 12:00:00''),
           (''value'', PFloat (257 / 10 :: rat))] ''id'' = Some (PInt 3) \<and>
   Max (set (map m_id two_rows)) < max_rowid \<and>
   map m_id two_rows = [1, 2] \<and>
   3 \<notin> set (map m_id two_rows) \<and>
   (3 :: int) = (if two_rows = [] then 1 else Max (set (map m_id two_rows)) + 1)"
proof -
  have a: "map_of [(''id'', PInt 3), (''timestamp'', PStr ''2025-12-05 12:00:00''),
           (''value'', PFloat (257 / 10 :: rat))] ''id'' = Some (PInt 3)"
    by simp
  have b: "Max (set (map m_id two_rows)) < max_rowid"
    and c: "map m_id two_rows = [1, 2]"
    by (simp_all add: two_rows_def max_rowid_def)
  note th = new_id_above_stored_ids
    [where lib = demo and now = noon and args = "[(''value'', ''25.7'')]" and st = two_rows
       and kvs = "[(''id'', PInt 3), (''timestamp'', PStr ''2025-12-05 12:00:00''),
                   (''value'', PFloat (257 / 10))]"
       and st' = "two_rows @ [\<lparr>m_id = 3, m_timestamp = noon, m_value = 257 / 10\<rparr>]"
       and i = 3]
  have d: "3 \<notin> set (map m_id two_rows)"
    and e: "(3 :: int) = (if two_rows = [] then 1 else Max (set (map m_id two_rows)) + 1)"
    using th demo_add_get_third a b by blast+
  show ?thesis
    by (intro conjI) (rule demo_add_get_third a b c d e)+
qed

text \<open>
  The claim as stated fails on the sequence add, delete, add: the first measurement gets
  id 1, it is deleted, and the next measurement gets id 1 again.
\<close>

theorem id_reused_after_delete:
  "add_measurement_via_get demo noon [(''value'', ''25.7'')] [] =
     (Inr (PDict [(''id'', PInt 1), (''timestamp'', PStr ''2025-12-05 12:00:00''),
                  (''value'', PFloat (257 / 10))], 201),
      [\<lparr>m_id = 1, m_timestamp = noon, m_value = 257 / 10\<rparr>]) \<and>
   delete_measurement 1 [\<lparr>m_id = 1, m_timestamp = noon, m_value = 257 / 10 :: rat\<rparr>] =
     (Inr (PDict [(''status'', PStr ''deleted''), (''id'', PInt 1)], 200), []) \<and>
   add_measurement_via_get demo at_1234 [(''value'', ''30.1'')] [] =
     (Inr (PDict [(''id'', PInt 1), (''timestamp'', PStr ''2025-12-05 12:34:56''),
                  (''value'', PFloat (301 / 10))], 201),
      [\<lparr>m_id = 1, m_timestamp = at_1234, m_value = 301 / 10\<rparr>])"
  by (intro conjI) (rule demo_add_get_now demo_delete_first demo_add_get_later)+

subsection \<open>Deleting by id\<close>

text \<open>
  Claim C8, as amended. For every table whose ids are pairwise distinct and every id in
  the range of a signed 64-bit integer: when no row has the id, the route raises the
  not-found exception (status 404) and the table is unchanged; when a row has it, the
  route answers 200 with \<^verbatim>\<open>{"status": "deleted", "id": id}\<close>, the table has exactly one row
  less, no row has the id afterwards, and a second delete of the id is answered 404.
\<close>

theorem delete_by_id:
  assumes "int64 i" and "distinct (map m_id st)"
  shows
    "(i \<notin> set (map m_id st) \<longrightarrow>
        delete_measurement i st = (Inl NotFound, st) \<and>
        http_status (fst (delete_measurement i st)) = 404) \<and>
     (i \<in> set (map m_id st) \<longrightarrow>
        delete_measurement i st =
          (Inr (PDict [(''status'', PStr ''deleted''), (''id'', PInt i)], 200),
           filter (\<lambda>r. m_id r \<noteq> i) st) \<and>
        length (snd (delete_measurement i st)) + 1 = length st \<and>
        i \<notin> set (map m_id (snd (delete_measurement i st))) \<and>
        fst (delete_measurement i (snd (delete_measurement i st))) = Inl NotFound)"
proof (intro conjI impI)
  assume n: "i \<notin> set (map m_id st)"
  then have "find (\<lambda>m. m_id m = i) st = None" by (simp add: find_id_None)
  with assms(1) show d: "delete_measurement i st = (Inl NotFound, st)"
    by (simp add: delete_measurement_def)
  show "http_status (fst (delete_measurement i st)) = 404"
    by (simp add: d)
next
  assume y: "i \<in> set (map m_id st)"
  then have "find (\<lambda>m. m_id m = i) st \<noteq> None" by (simp add: find_id_None)
  with assms(1) show d: "delete_measurement i st =
          (Inr (PDict [(''status'', PStr ''deleted''), (''id'', PInt i)], 200),
           filter (\<lambda>r. m_id r \<noteq> i) st)"
    by (auto simp: delete_measurement_def)
  show "length (snd (delete_measurement i st)) + 1 = length st"
    using length_filter_other_ids[OF assms(2) y] by (simp add: d)
  show g: "i \<notin> set (map m_id (snd (delete_measurement i st)))"
    by (auto simp: d)
  have "find (\<lambda>m. m_id m = i) (filter (\<lambda>r. m_id r \<noteq> i) st) = None"
    by (auto simp: find_None_iff)
  with assms(1) show "fst (delete_measurement i (snd (delete_measurement i st))) = Inl NotFound"
    unfolding d snd_conv by (simp add: delete_measurement_def)
qed

theorem delete_by_id_witness:
  "int64 2 \<and> distinct (map m_id two_rows) \<and> 2 \<in> set (map m_id two_rows) \<and>
   delete_measurement 2 two_rows =
     (Inr (PDict [(''status'', PStr ''deleted''), (''id'', PInt 2)], 200),
      filter (\<lambda>r. m_id r \<noteq> 2) two_rows) \<and>
   length (snd (delete_measurement 2 two_rows)) + 1 = length two_rows \<and>
   fst (delete_measurement 2 (snd (delete_measurement 2 two_rows))) = Inl NotFound \<and>
   int64 7 \<and> 7 \<notin> set (map m_id two_rows) \<and>
   delete_measurement 7 two_rows = (Inl NotFound, two_rows)"
proof -
  have a: "int64 2" and b: "distinct (map m_id two_rows)" and c: "2 \<in> set (map m_id two_rows)"
    and d: "int64 7" and e: "7 \<notin> set (map m_id two_rows)"
    by (simp_all add: int64_def max_rowid_def two_rows_def)
  note t2 = delete_by_id[OF a b]
  note t7 = delete_by_id[OF d b]
  have f: "delete_measurement 2 two_rows =
     (Inr (PDict [(''status'', PStr ''deleted''), (''id'', PInt 2)], 200),
      filter (\<lambda>r. m_id r \<noteq> 2) two_rows)"
    and g: "length (snd (delete_measurement 2 two_rows)) + 1 = length two_rows"
    and h: "fst (delete_measurement 2 (snd (delete_measurement 2 two_rows))) = Inl NotFound"
    using t2 c by blast+
  have k: "delete_measurement 7 two_rows = (Inl NotFound, two_rows)"
    using t7 e by blast
  show ?thesis
    by (intro conjI) (rule a b c d e f g h k)+
qed

text \<open>
  The claim as stated fails for an id beyond the 64-bit range, which the URL converter
  accepts: no row has it, and the lookup raises \<^verbatim>\<open>OverflowError\<close>, answered with 500.
\<close>

theorem huge_id_is_not_404:
  "9223372036854775808 \<notin> set (map m_id ([] :: rat measurement list)) \<and>
   delete_measurement 9223372036854775808 ([] :: rat measurement list) = (Inl OverflowError, []) \<and>
   http_status (fst (delete_measurement 9223372036854775808 ([] :: rat measurement list))) = 500"
  by (simp add: delete_measurement_def int64_def max_rowid_def)

subsection \<open>Ordered queries and sorted permutations\<close>

lemma select_rows_ordered:
  "select_rows lib args st =
     (case map_of args ''limit'' of
        None \<Rightarrow> Inr (ordered_query lib args st)
      | Some s \<Rightarrow>
          (case py_int_str lib s of
             None \<Rightarrow> Inr (ordered_query lib args st)
           | Some n \<Rightarrow>
               if n = 0 then Inr (ordered_query lib args st)
               else if int64 n then Inr (sql_limit n (ordered_query lib args st))
               else Inl OverflowError))"
  by (auto simp: select_rows_def ordered_query_def Let_def split: option.splits)

lemma ordered_query_ok:
  assumes "order_ok lib Asc st" and "order_ok lib Desc st"
  shows "mset (ordered_query lib args st) = mset st"
    and "map_of args ''order'' = Some ''desc'' \<Longrightarrow>
           sorted_wrt (in_order Desc) (map m_timestamp (ordered_query lib args st))"
    and "map_of args ''order'' \<noteq> Some ''desc'' \<Longrightarrow>
           sorted_wrt (in_order Asc) (map m_timestamp (ordered_query lib args st))"
  using assms by (simp_all add: ordered_query_def order_ok_def)

lemma sorted_wrt_sql_limit:
  "sorted_wrt P (map f xs) \<Longrightarrow> sorted_wrt P (map f (sql_limit n xs))"
  by (simp add: sql_limit_def take_map[symmetric] sorted_wrt_take)

lemma select_rows_cases:
  assumes "limit_fits lib args"
  shows "select_rows lib args st = Inr (ordered_query lib args st) \<or>
         (\<exists>n. select_rows lib args st = Inr (sql_limit n (ordered_query lib args st)))"
  using assms by (auto simp: select_rows_ordered limit_fits_def split: option.splits)

lemma demo_index_scan_two_rows:
  "index_scan Asc two_rows = two_rows" "index_scan Desc two_rows = rev two_rows"
  by (simp_all add: index_scan_def two_rows_def dt_key_def noon_def at_1234_def)

lemma demo_order_ok_two_rows:
  "order_ok demo Asc two_rows" "order_ok demo Desc two_rows"
  by (simp_all add: order_ok_def demo_fields demo_index_scan_two_rows)
    (simp_all add: two_rows_def in_order_def dt_key_def noon_def at_1234_def)

subsection \<open>The order of a listing\<close>

text \<open>
  Claim C3, as amended. For every value of the parameter \<^verbatim>\<open>order\<close>, absence included, and
  every limit the driver can bind, the listing answers 200; its rows are in descending
  order of timestamp when the parameter is the string \<^verbatim>\<open>desc\<close>, and in ascending order of
  timestamp for every other value and when it is absent. The token of the claim as
  stated, \<^verbatim>\<open>descending\<close>, is one of the other values (the evaluation below).
\<close>

theorem order_parameter:
  assumes "order_ok lib Asc st" and "order_ok lib Desc st" and "limit_fits lib args"
  shows "\<exists>rows.
           select_rows lib args st = Inr rows \<and>
           list_measurements lib args st = Inr (PList (map (row_json lib) rows), 200) \<and>
           (map_of args ''order'' = Some ''desc'' \<longrightarrow>
              sorted_wrt (in_order Desc) (map m_timestamp rows)) \<and>
           (map_of args ''order'' \<noteq> Some ''desc'' \<longrightarrow>
              sorted_wrt (in_order Asc) (map m_timestamp rows))"
proof -
  note ok = ordered_query_ok[OF assms(1,2), of args]
  from select_rows_cases[OF assms(3), of st]
  show ?thesis
  proof
    assume s: "select_rows lib args st = Inr (ordered_query lib args st)"
    show ?thesis
      using ok(2,3) by (intro exI[of _ "ordered_query lib args st"]) (simp add: s list_measurements_def)
  next
    assume "\<exists>n. select_rows lib args st = Inr (sql_limit n (ordered_query lib args st))"
    then obtain n where s: "select_rows lib args st = Inr (sql_limit n (ordered_query lib args st))"
      by blast
    show ?thesis
      using ok(2,3)
      by (intro exI[of _ "sql_limit n (ordered_query lib args st)"])
        (simp add: s list_measurements_def sorted_wrt_sql_limit)
  qed
qed

theorem order_parameter_witness:
  "order_ok demo Asc two_rows \<and> order_ok demo Desc two_rows \<and>
   limit_fits demo [(''order'', ''desc'')] \<and>
   map_of [(''order'', ''desc'')] ''order'' = Some ''desc'' \<and>
   (\<exists>rows.
      select_rows demo [(''order'', ''desc'')] two_rows = Inr rows \<and>
      list_measurements demo [(''order'', ''desc'')] two_rows =
        Inr (PList (map (row_json demo) rows), 200) \<and>
      sorted_wrt (in_order Desc) (map m_timestamp rows))"
proof -
  have a: "limit_fits demo [(''order'', ''desc'')]"
    and b: "map_of [(''order'', ''desc'')] ''order'' = Some ''desc''"
    by (simp_all add: limit_fits_def)
  from order_parameter[OF demo_order_ok_two_rows a] b
  have c: "\<exists>rows.
      select_rows demo [(''order'', ''desc'')] two_rows = Inr rows \<and>
      list_measurements demo [(''order'', ''desc'')] two_rows =
        Inr (PList (map (row_json demo) rows), 200) \<and>
      sorted_wrt (in_order Desc) (map m_timestamp rows)"
    by blast
  show ?thesis
    by (intro conjI) (rule demo_order_ok_two_rows a b c)+
qed

text \<open>
  The claim as stated fails at \<^verbatim>\<open>order=descending\<close>: the route compares the parameter with
  \<^verbatim>\<open>'desc'\<close> (line 146), and the listing of two rows with different timestamps comes in
  ascending order, which is not a descending one.
\<close>

theorem descending_token_is_ascending:
  "select_rows demo [(''order'', ''descending'')] two_rows = Inr two_rows \<and>
   list_measurements demo [(''order'', ''descending'')] two_rows =
     Inr (PList
       [PDict [(''id'', PInt 1), (''timestamp'', PStr ''2025-12-05 12:00:00''),
               (''value'', PFloat (257 / 10))],
        PDict [(''id'', PInt 2), (''timestamp'', PStr ''2025-12-05 12:34:56''),
               (''value'', PFloat (301 / 10))]], 200) \<and>
   \<not> sorted_wrt (in_order Desc) (map m_timestamp two_rows)"
proof -
  have a: "select_rows demo [(''order'', ''descending'')] two_rows = Inr two_rows"
    by (simp add: select_rows_def demo_fields demo_index_scan_two_rows)
  have b: "map (row_json demo) two_rows =
       [PDict [(''id'', PInt 1), (''timestamp'', PStr ''2025-12-05 12:00:00''),
               (''value'', PFloat (257 / 10))],
        PDict [(''id'', PInt 2), (''timestamp'', PStr ''2025-12-05 12:34:56''),
               (''value'', PFloat (301 / 10))]]"
    by (simp add: two_rows_def row_json_def demo_fields demo_strftime_examples)
  have c: "\<not> sorted_wrt (in_order Desc) (map m_timestamp two_rows)"
    by (simp add: two_rows_def in_order_def dt_key_def noon_def at_1234_def)
  show ?thesis
    by (simp add: a b c list_measurements_def)
qed

subsection \<open>The limit of a listing\<close>

text \<open>
  Claim C4, as amended. For every table and every integer limit \<open>n\<close> in the range of a
  signed 64-bit integer: if \<open>n\<close> is positive, the listing returns the first \<open>n\<close> rows of the
  whole ordered sequence, \<open>min n (length st)\<close> rows in all; if \<open>n\<close> is zero or negative, if
  the parameter is absent, or if it is not an integer, the listing returns the whole
  ordered sequence. The whole ordered sequence has as many rows as the table.
\<close>

theorem limit_parameter:
  assumes "order_ok lib Asc st" and "order_ok lib Desc st"
  shows
    "length (ordered_query lib args st) = length st \<and>
     (map_of args ''limit'' = Some s \<and> py_int_str lib s = Some n \<and> int64 n \<and> 0 < n \<longrightarrow>
        select_rows lib args st = Inr (take (nat n) (ordered_query lib args st)) \<and>
        length (take (nat n) (ordered_query lib args st)) = min (nat n) (length st)) \<and>
     (map_of args ''limit'' = Some s \<and> py_int_str lib s = Some n \<and> int64 n \<and> n \<le> 0 \<longrightarrow>
        select_rows lib args st = Inr (ordered_query lib args st)) \<and>
     (map_of args ''limit'' = None \<longrightarrow>
        select_rows lib args st = Inr (ordered_query lib args st)) \<and>
     (map_of args ''limit'' = Some s \<and> py_int_str lib s = None \<longrightarrow>
        select_rows lib args st = Inr (ordered_query lib args st)) \<and>
     (select_rows lib args st = Inr rows \<longrightarrow>
        list_measurements lib args st = Inr (PList (map (row_json lib) rows), 200))"
proof -
  have len: "length (ordered_query lib args st) = length st"
    using ordered_query_ok(1)[OF assms, of args] by (rule mset_eq_length)
  show ?thesis
    by (auto simp: len select_rows_ordered sql_limit_def list_measurements_def)
qed

theorem limit_parameter_witness:
  "order_ok demo Asc two_rows \<and> order_ok demo Desc two_rows \<and>
   map_of [(''limit'', ''1'')] ''limit'' = Some ''1'' \<and> py_int_str demo ''1'' = Some 1 \<and>
   int64 1 \<and> (0 :: int) < 1 \<and>
   ordered_query demo [(''limit'', ''1'')] two_rows = two_rows \<and>
   select_rows demo [(''limit'', ''1'')] two_rows =
     Inr (take (nat 1) (ordered_query demo [(''limit'', ''1'')] two_rows)) \<and>
   length (take (nat 1) (ordered_query demo [(''limit'', ''1'')] two_rows)) =
     min (nat 1) (length two_rows)"
proof -
  have a: "map_of [(''limit'', ''1'')] ''limit'' = Some ''1''"
    and b: "py_int_str demo ''1'' = Some 1"
    and c: "int64 1" and d: "(0 :: int) < 1"
    and e: "ordered_query demo [(''limit'', ''1'')] two_rows = two_rows"
    by (simp_all add: demo_fields demo_eval int64_def max_rowid_def ordered_query_def
        demo_index_scan_two_rows)
  note th = limit_parameter[OF demo_order_ok_two_rows,
      where args = "[(''limit'', ''1'')]" and s = "''1''" and n = 1]
  have f: "select_rows demo [(''limit'', ''1'')] two_rows =
     Inr (take (nat 1) (ordered_query demo [(''limit'', ''1'')] two_rows))"
    and g: "length (take (nat 1) (ordered_query demo [(''limit'', ''1'')] two_rows)) =
     min (nat 1) (length two_rows)"
    using th a b c d by blast+
  show ?thesis
    by (intro conjI) (rule demo_order_ok_two_rows a b c d e f g)+
qed

text \<open>
  The claim as stated fails for a positive limit beyond the 64-bit range: \<^verbatim>\<open>int\<close> accepts
  the parameter, the driver cannot bind it, and the route raises \<^verbatim>\<open>OverflowError\<close>.
\<close>

theorem huge_limit_raises:
  "py_int_str demo ''9223372036854775808'' = Some 9223372036854775808 \<and>
   select_rows demo [(''limit'', ''9223372036854775808'')] two_rows = Inl OverflowError \<and>
   list_measurements demo [(''limit'', ''9223372036854775808'')] two_rows = Inl OverflowError \<and>
   http_status (list_measurements demo [(''limit'', ''9223372036854775808'')] two_rows) = 500"
proof -
  have a: "py_int_str demo ''9223372036854775808'' = Some 9223372036854775808"
    by (simp add: demo_fields demo_eval)
  have b: "select_rows demo [(''limit'', ''9223372036854775808'')] two_rows = Inl OverflowError"
    by (simp add: select_rows_ordered a int64_def max_rowid_def)
  show ?thesis
    by (simp add: a b list_measurements_def)
qed

subsection \<open>Descending and ascending listings\<close>

lemma demo_index_scan_tie_rows:
  "index_scan Asc tie_rows = tie_rows" "index_scan Desc tie_rows = rev tie_rows"
  by (simp_all add: index_scan_def tie_rows_def)

text \<open>
  Claim C5. For every table, tables in which measurements have equal timestamps included,
  the listing in descending order is the exact reverse of the listing in ascending order.
  The engine is SQLite's, which answers both queries from the index on the timestamp.
\<close>

theorem descending_reverses_ascending:
  assumes "sql_order_by lib = index_scan"
  shows "\<exists>rows.
           list_measurements lib [] st = Inr (PList (map (row_json lib) rows), 200) \<and>
           list_measurements lib [(''order'', ''desc'')] st =
             Inr (PList (rev (map (row_json lib) rows)), 200) \<and>
           mset rows = mset st \<and> sorted_wrt (in_order Asc) (map m_timestamp rows)"
proof -
  have ok: "order_ok lib Asc st" using assms by (rule index_scan_meets_contract)
  show ?thesis
    using ok
    by (intro exI[of _ "index_scan Asc st"])
      (simp add: list_measurements_def select_rows_def assms index_scan_def rev_map order_ok_def)
qed

theorem descending_reverses_ascending_witness:
  "sql_order_by demo = index_scan \<and>
   list_measurements demo [] tie_rows =
     Inr (PList
       [PDict [(''id'', PInt 1), (''timestamp'', PStr ''2025-12-05 12:00:00''),
               (''value'', PFloat (257 / 10))],
        PDict [(''id'', PInt 2), (''timestamp'', PStr ''2025-12-05 12:00:00''),
               (''value'', PFloat (301 / 10))]], 200) \<and>
   list_measurements demo [(''order'', ''desc'')] tie_rows =
     Inr (PList
       [PDict [(''id'', PInt 2), (''timestamp'', PStr ''2025-12-05 12:00:00''),
               (''value'', PFloat (301 / 10))],
        PDict [(''id'', PInt 1), (''timestamp'', PStr ''2025-12-05 12:00:00''),
               (''value'', PFloat (257 / 10))]], 200)"
proof -
  have e: "sql_order_by demo = index_scan" by (rule demo_fields)
  have j: "map (row_json demo) tie_rows =
       [PDict [(''id'', PInt 1), (''timestamp'', PStr ''2025-12-05 12:00:00''),
               (''value'', PFloat (257 / 10))],
        PDict [(''id'', PInt 2), (''timestamp'', PStr ''2025-12-05 12:00:00''),
               (''value'', PFloat (301 / 10))]]"
    by (simp add: tie_rows_def row_json_def demo_fields demo_strftime_examples)
  have a: "list_measurements demo [] tie_rows = Inr (PList (map (row_json demo) tie_rows), 200)"
    by (simp add: list_measurements_def select_rows_def demo_fields demo_index_scan_tie_rows)
  from descending_reverses_ascending[OF e, of tie_rows] obtain rows where
    r: "list_measurements demo [] tie_rows = Inr (PList (map (row_json demo) rows), 200)"
    and d: "list_measurements demo [(''order'', ''desc'')] tie_rows =
             Inr (PList (rev (map (row_json demo) rows)), 200)"
    by blast
  from a r have "map (row_json demo) rows = map (row_json demo) tie_rows" by simp
  with d have d': "list_measurements demo [(''order'', ''desc'')] tie_rows =
             Inr (PList (rev (map (row_json demo) tie_rows)), 200)"
    by simp
  show ?thesis
    by (intro conjI) (simp_all add: e a d' j)
qed

end
